theory Spec2Isabelle
  imports Main "HOL-Library.Word" "HOL-Library.Signed_Division"
begin

unbundle bit_operations_syntax

section \<open>The getui REST client (client.go)\<close>

text \<open>
  A shallow embedding of \<^verbatim>\<open>client.go\<close>. The client talks to a remote service over
  HTTP; everything outside the file (the clock, \<^verbatim>\<open>crypto/sha256\<close>, \<^verbatim>\<open>net/http\<close> and
  the remote service behind it, \<^verbatim>\<open>encoding/json\<close> on the response) is a parameter, gathered
  in the record \<open>env\<close>. Every method threads the list of requests handed to
  \<^verbatim>\<open>http.DefaultClient.Do\<close> so far, so that what was sent, and in which order, is part of
  the result. Go strings are byte sequences: \<open>string\<close>.
\<close>

subsection \<open>Request and response structs\<close>

text \<open>
  Several Go structs share field names (\<^verbatim>\<open>Message\<close>, \<^verbatim>\<open>CID\<close>, \<^verbatim>\<open>RequestID\<close>, ...); a record
  field is a constant, so the fields of the request structs carry the struct as a prefix.
  \<^verbatim>\<open>RspBody\<close>, \<^verbatim>\<open>InitParams\<close> and \<^verbatim>\<open>client\<close> keep the source's field names.
\<close>

record Message =
  msg_AppKey :: string
  msg_IsOffline :: bool
  msg_MsgType :: string

record NotificationStyle =
  style_Type :: int
  style_Text :: string
  style_Title :: string

record Notification =
  Style :: NotificationStyle
  TransmissionType :: bool
  TransmissionContent :: string

record PushInfoAlert =
  alert_Title :: string
  alert_Body :: string

record PushInfoAps =
  Alert :: PushInfoAlert
  AutoBadge :: string
  ContentAvailable :: int

record PushInfoMultimedia =
  mm_URL :: string
  mm_Type :: int
  mm_OnlyWifi :: bool

record PushInfo =
  Aps :: PushInfoAps
  Multimedia :: "PushInfoMultimedia list"

record SingleReqBody =
  single_Message :: Message
  single_Notification :: Notification
  single_CID :: string
  single_Alias :: string
  single_RequestID :: string
  single_PushInfo :: PushInfo

record ListReqBody =
  list_Message :: Message
  list_Notification :: Notification
  list_CID :: "string list"
  list_Alias :: string
  list_PushInfo :: PushInfo
  list_TaskID :: string
  list_NeedDetail :: bool
  list_OfflineExpireTime :: int

record AppReqBodyCondition =
  cond_Key :: string
  cond_Values :: "string list"
  cond_OptType :: string

record AppReqBody =
  app_Message :: Message
  app_Notification :: Notification
  app_Condition :: "AppReqBodyCondition list"
  app_RequestID :: string

text \<open>
  Modelled from the spec: the struct \<^verbatim>\<open>SaveListBody\<close>, the shared message body that the
  list push saves first. Its declaration is not in \<^verbatim>\<open>client.go\<close>; the fields are the ones
  \<^verbatim>\<open>saveListBody\<close> assigns (lines 554-560).
\<close>

record SaveListMessage =
  save_AppKey :: string
  save_IsOffLine :: bool
  save_OfflineExpireTime :: int
  save_MsgType :: string

record SaveListBody =
  save_Message :: SaveListMessage
  save_Notification :: Notification

record RspBody =
  Result :: string
  TaskID :: string
  Desc :: string
  Status :: string
  RequestID :: string

text \<open>\<^verbatim>\<open>time.Time\<close>: its zero value, or \<^verbatim>\<open>time.Unix(sec, nsec)\<close>.\<close>

datatype Time = ZeroTime | Unix int int

text \<open>The struct \<^verbatim>\<open>UserStatus\<close> (the method of the same name keeps the name).\<close>

record UserStatusBody =
  us_Result :: string
  us_CID :: string
  us_Status :: string
  LastLoginUnix :: string
  LastLogin :: Time

record InitParams =
  AppID :: string
  AppSecret :: string
  AppKey :: string
  MasterSecret :: string
  AuthHeartbeat :: int

text \<open>\<^verbatim>\<open>client\<close> embeds \<^verbatim>\<open>InitParams\<close>.\<close>

record client = InitParams +
  lastUpdateTokenTime :: Time
  authToken :: string

subsection \<open>Errors\<close>

text \<open>
  Every error of the file is built by \<^verbatim>\<open>fmt.Errorf\<close> from a fixed text that starts with
  a bracketed tag and ends with one formatted operand. An error value keeps the tag and the
  operand; the constructor says which text it is:
  \<^item> \<open>ErrTarget\<close>: neither cid nor alias (lines 296, 498);
  \<^item> \<open>ErrCreate\<close>: \<^verbatim>\<open>http.NewRequest\<close> failed, with its error;
  \<^item> \<open>ErrSend\<close>: \<^verbatim>\<open>http.DefaultClient.Do\<close> failed, with its error;
  \<^item> \<open>ErrRead\<close>: \<^verbatim>\<open>ioutil.ReadAll\<close> failed, with its error;
  \<^item> \<open>ErrJSON\<close>: \<^verbatim>\<open>json.Unmarshal\<close> failed, with its error (the text of line 459 also
    prints the struct it was decoding into, which is left out);
  \<^item> \<open>ErrDesc\<close>: the result is not "ok", with \<^verbatim>\<open>desc: %s\<close> of \<^verbatim>\<open>ret.Desc\<close> (line 285);
  \<^item> \<open>ErrRet\<close>: the result is not "ok", with \<^verbatim>\<open>ret: %v\<close> of the decoded \<^verbatim>\<open>*RspBody\<close>;
  \<^item> \<open>ErrRetStatus\<close>: the same for the decoded \<^verbatim>\<open>*UserStatus\<close> (line 472);
  \<^item> \<open>ErrNum\<close>: the \<^verbatim>\<open>*strconv.NumError\<close> of \<^verbatim>\<open>strconv.Atoi\<close>, returned as it is
    (line 466), with the input and the reason;
  \<^item> \<open>ErrWrap\<close>: \<^verbatim>\<open>err: %s\<close> of another error of this file (lines 162, 207, 483, 503).
\<close>

datatype error =
    ErrTarget string
  | ErrCreate string string
  | ErrSend string string
  | ErrRead string string
  | ErrJSON string string
  | ErrDesc string string
  | ErrRet string RspBody
  | ErrRetStatus string UserStatusBody
  | ErrNum string string
  | ErrWrap string error

subsection \<open>The environment\<close>

text \<open>
  What \<^verbatim>\<open>json.Marshal\<close> is given: the struct itself (the JSON text is not modelled).
  \<open>AuthBody appkey timestamp sign\<close> is the anonymous struct of \<^verbatim>\<open>refreshAuth\<close>.
\<close>

datatype payload =
    NoBody
  | AuthBody string string string
  | SingleBody SingleReqBody
  | ListBody ListReqBody
  | AppBody AppReqBody
  | SaveBody SaveListBody

record request =
  req_method :: string
  req_url :: string
  req_header :: "(string \<times> string) list"
  req_body :: payload

text \<open>
  What comes back for a request that was sent:
  \<^item> \<open>Failed e\<close>: \<^verbatim>\<open>Do\<close> returns the error \<open>e\<close>;
  \<^item> \<open>Unread st e\<close>: a response with HTTP status \<open>st\<close> whose body \<^verbatim>\<open>ioutil.ReadAll\<close>
    fails to read;
  \<^item> \<open>Invalid st e\<close>: a body on which \<^verbatim>\<open>json.Unmarshal\<close> returns the error \<open>e\<close>;
  \<^item> \<open>Object st f\<close>: a body that decodes; \<open>f k\<close> is the string \<^verbatim>\<open>json.Unmarshal\<close> stores
    into the field tagged \<open>k\<close>, \<open>None\<close> when the body has no such key (the field then
    keeps the value it had).
  No function of the file reads the HTTP status.
\<close>

datatype response =
    Failed string
  | Unread nat string
  | Invalid nat string
  | Object nat "string \<rightharpoonup> string"

text \<open>
  \<^item> \<open>sha256_Sum256\<close>: \<^verbatim>\<open>sha256.Sum256\<close>, from bytes to a \<^verbatim>\<open>[32]byte\<close> (a 256-bit word,
    byte 0 the most significant);
  \<^item> \<open>http_NewRequest method url\<close>: the error of \<^verbatim>\<open>http.NewRequest\<close>, if any;
  \<^item> \<open>http_Do sent req\<close>: the outcome of sending \<open>req\<close> after the requests \<open>sent\<close>.
\<close>

record env =
  sha256_Sum256 :: "8 word list \<Rightarrow> 256 word"
  http_NewRequest :: "string \<Rightarrow> string \<Rightarrow> string option"
  http_Do :: "request list \<Rightarrow> request \<Rightarrow> response"

subsection \<open>Formatting and parsing numbers\<close>

definition digit_char :: "nat \<Rightarrow> char" where
  "digit_char d = ''0123456789abcdefghijklmnopqrstuvwxyz'' ! d"

function digits :: "nat \<Rightarrow> nat \<Rightarrow> string" where
  "digits b n = (if b < 2 \<or> n < b then [digit_char n] else digits b (n div b) @ [digit_char (n mod b)])"
  by pat_completeness auto
termination
  by (relation "measure (\<lambda>(b, n). n)") auto

declare digits.simps [simp del]

text \<open>\<^verbatim>\<open>strconv.FormatInt(i, base)\<close>, for \<open>2 \<le> base \<le> 36\<close>.\<close>

definition FormatInt :: "int \<Rightarrow> nat \<Rightarrow> string" where
  "FormatInt i base = (if i < 0 then CHR ''-'' # digits base (nat (- i)) else digits base (nat i))"

text \<open>\<^verbatim>\<open>fmt.Sprintf("%d", i)\<close>\<close>

definition fmt_d :: "int \<Rightarrow> string" where
  "fmt_d i = FormatInt i 10"

text \<open>
  \<^verbatim>\<open>fmt.Sprintf("%x", sum)\<close> of a \<^verbatim>\<open>[32]byte\<close>: two lowercase hexadecimal digits for
  each byte, from byte 0 on; \<open>nibble d i\<close> is the \<open>i\<close>-th half byte.
\<close>

definition nibble :: "256 word \<Rightarrow> nat \<Rightarrow> 256 word" where
  "nibble d i = drop_bit (4 * (63 - i)) d AND 15"

definition fmt_x :: "256 word \<Rightarrow> string" where
  "fmt_x d = map (\<lambda>i. digit_char (unat (nibble d i))) [0..<64]"

text \<open>\<^verbatim>\<open>[]byte(s)\<close>\<close>

definition bytes :: "string \<Rightarrow> 8 word list" where
  "bytes s = map of_char s"

definition is_digit :: "char \<Rightarrow> bool" where
  "is_digit c = (48 \<le> (of_char c :: nat) \<and> (of_char c :: nat) \<le> 57)"

definition digit_val :: "char \<Rightarrow> nat" where
  "digit_val c = of_char c - 48"

text \<open>
  The loop of \<^verbatim>\<open>strconv.ParseUint(s, 10, 64)\<close>: it stops at the first character that is
  not a digit, or at the first digit with which the value leaves \<^verbatim>\<open>uint64\<close>.
\<close>

fun scan_uint :: "nat \<Rightarrow> string \<Rightarrow> string + nat" where
  "scan_uint n [] = Inr n"
| "scan_uint n (c # cs) =
     (if \<not> is_digit c then Inl ''invalid syntax''
      else if 2 ^ 64 div 10 + 1 \<le> n then Inl ''value out of range''
      else if 2 ^ 64 - 1 < 10 * n + digit_val c then Inl ''value out of range''
      else scan_uint (10 * n + digit_val c) cs)"

text \<open>
  \<^verbatim>\<open>strconv.Atoi\<close> on a 64-bit platform: an optional sign, then decimal digits only;
  the value must fit \<^verbatim>\<open>int64\<close>. \<open>Inl\<close> is the reason of the \<^verbatim>\<open>NumError\<close>.
\<close>

definition Atoi :: "string \<Rightarrow> string + int" where
  "Atoi s =
    (let neg = (s \<noteq> [] \<and> hd s = CHR ''-'');
         ds = (if s \<noteq> [] \<and> (hd s = CHR ''-'' \<or> hd s = CHR ''+'') then tl s else s)
     in if ds = [] then Inl ''invalid syntax''
        else (case scan_uint 0 ds of
                Inl why \<Rightarrow> Inl why
              | Inr un \<Rightarrow>
                 if \<not> neg \<and> 2 ^ 63 \<le> un then Inl ''value out of range''
                 else if neg \<and> 2 ^ 63 < un then Inl ''value out of range''
                 else Inr (if neg then - int un else int un)))"

subsection \<open>Decoding a response\<close>

definition field :: "(string \<rightharpoonup> string) \<Rightarrow> string \<Rightarrow> string \<Rightarrow> string" where
  "field f k old = (case f k of Some v \<Rightarrow> v | None \<Rightarrow> old)"

text \<open>\<^verbatim>\<open>json.Unmarshal(rspBody, ret)\<close> for \<^verbatim>\<open>ret *RspBody\<close>, on a body that decodes.\<close>

definition unmarshal_RspBody :: "(string \<rightharpoonup> string) \<Rightarrow> RspBody \<Rightarrow> RspBody" where
  "unmarshal_RspBody f r =
     \<lparr>Result = field f ''result'' (Result r),
      TaskID = field f ''taskid'' (TaskID r),
      Desc = field f ''desc'' (Desc r),
      Status = field f ''status'' (Status r),
      RequestID = field f ''requestID'' (RequestID r)\<rparr>"

text \<open>
  The same for \<^verbatim>\<open>ret *UserStatus\<close>, for the four tagged fields. The body is taken
  to have no key for the untagged \<^verbatim>\<open>LastLogin\<close>, which keeps its value.
\<close>

definition unmarshal_UserStatus :: "(string \<rightharpoonup> string) \<Rightarrow> UserStatusBody \<Rightarrow> UserStatusBody" where
  "unmarshal_UserStatus f r =
     \<lparr>us_Result = field f ''result'' (us_Result r),
      us_CID = field f ''cid'' (us_CID r),
      us_Status = field f ''status'' (us_Status r),
      LastLoginUnix = field f ''lastlogin'' (LastLoginUnix r),
      LastLogin = LastLogin r\<rparr>"

text \<open>The zero values \<^verbatim>\<open>&RspBody{}\<close> and \<^verbatim>\<open>&UserStatus{}\<close>.\<close>

definition zero_RspBody :: RspBody where
  "zero_RspBody = \<lparr>Result = [], TaskID = [], Desc = [], Status = [], RequestID = []\<rparr>"

definition zero_UserStatus :: UserStatusBody where
  "zero_UserStatus =
     \<lparr>us_Result = [], us_CID = [], us_Status = [], LastLoginUnix = [], LastLogin = ZeroTime\<rparr>"

subsection \<open>The session: CloseAuth, refreshAuth, init, Init, AuthToken\<close>

definition endpoint :: "'a InitParams_scheme \<Rightarrow> string \<Rightarrow> string" where
  "endpoint c name = ''https://restapi.getui.com/v1/'' @ AppID c @ name"

definition json_header :: "client \<Rightarrow> (string \<times> string) list" where
  "json_header c = [(''Content-Type'', ''application/json''), (''authtoken'', authToken c)]"

text \<open>
  \<^verbatim>\<open>CloseAuth\<close> (lines 260-289). The method has a pointer receiver; the client comes back
  with the result, as the method leaves it.
\<close>

definition CloseAuth_request :: "client \<Rightarrow> request" where
  "CloseAuth_request c =
     \<lparr>req_method = ''POST'', req_url = endpoint c ''/auth_close'',
      req_header = [(''authtoken'', authToken c)], req_body = NoBody\<rparr>"

definition CloseAuth :: "env \<Rightarrow> client \<Rightarrow> request list \<Rightarrow> (error + RspBody) \<times> client \<times> request list" where
  "CloseAuth E c sent =
    (case http_NewRequest E ''POST'' (endpoint c ''/auth_close'') of
       Some e \<Rightarrow> (Inl (ErrCreate ''[CloseAuth]'' e), c, sent)
     | None \<Rightarrow>
        (let req = CloseAuth_request c in
         case http_Do E sent req of
           Failed e \<Rightarrow> (Inl (ErrSend ''[CloseAuth]'' e), c, sent @ [req])
         | Unread st e \<Rightarrow> (Inl (ErrRead ''[CloseAuth]'' e), c, sent @ [req])
         | Invalid st e \<Rightarrow> (Inl (ErrJSON ''[CloseAuth]'' e), c, sent @ [req])
         | Object st f \<Rightarrow>
            (let ret = unmarshal_RspBody f zero_RspBody in
             if Result ret \<noteq> ''ok''
             then (Inl (ErrDesc ''[CloseAuth]'' (Desc ret)), c, sent @ [req])
             else (Inr ret, c, sent @ [req]))))"

text \<open>
  The signature of lines 213-215: \<open>now\<close> is \<^verbatim>\<open>time.Now().UnixNano()\<close>; Go's \<^verbatim>\<open>/\<close>
  truncates towards zero.
\<close>

definition timestamp :: "int \<Rightarrow> string" where
  "timestamp now = fmt_d (now sdiv 1000000)"

definition sign_message :: "string \<Rightarrow> string \<Rightarrow> string \<Rightarrow> 8 word list" where
  "sign_message appKey ts masterSecret = bytes (appKey @ ts @ masterSecret)"

definition signStr :: "(8 word list \<Rightarrow> 256 word) \<Rightarrow> string \<Rightarrow> string \<Rightarrow> string \<Rightarrow> string" where
  "signStr H appKey ts masterSecret = fmt_x (H (sign_message appKey ts masterSecret))"

definition auth_request :: "env \<Rightarrow> int \<Rightarrow> client \<Rightarrow> request" where
  "auth_request E now c =
     \<lparr>req_method = ''POST'', req_url = endpoint c ''/auth_sign'',
      req_header = [(''Content-Type'', ''application/json'')],
      req_body = AuthBody (AppKey c) (timestamp now)
        (signStr (sha256_Sum256 E) (AppKey c) (timestamp now) (MasterSecret c))\<rparr>"

text \<open>Lines 211-256 of \<^verbatim>\<open>refreshAuth\<close>: ask for a token and store it.\<close>

definition requestAuth :: "env \<Rightarrow> int \<Rightarrow> client \<Rightarrow> request list \<Rightarrow> error option \<times> client \<times> request list" where
  "requestAuth E now c sent =
    (case http_NewRequest E ''POST'' (endpoint c ''/auth_sign'') of
       Some e \<Rightarrow> (Some (ErrCreate ''[refreshAuth]'' e), c, sent)
     | None \<Rightarrow>
        (let req = auth_request E now c in
         case http_Do E sent req of
           Failed e \<Rightarrow> (Some (ErrSend ''[refreshAuth]'' e), c, sent @ [req])
         | Unread st e \<Rightarrow> (Some (ErrRead ''[refreshAuth]'' e), c, sent @ [req])
         | Invalid st e \<Rightarrow> (Some (ErrJSON ''[refreshAuth]'' e), c, sent @ [req])
         | Object st f \<Rightarrow> (None, c\<lparr>authToken := field f ''auth_token'' []\<rparr>, sent @ [req])))"

text \<open>\<^verbatim>\<open>refreshAuth\<close> (lines 201-257).\<close>

definition refreshAuth :: "env \<Rightarrow> int \<Rightarrow> client \<Rightarrow> request list \<Rightarrow> error option \<times> client \<times> request list" where
  "refreshAuth E now c sent =
    (if 0 < length (authToken c)
     then (case CloseAuth E c sent of
             (Inl err, c1, sent1) \<Rightarrow> (Some (ErrWrap ''[refreshAuth]'' err), c1, sent1)
           | (Inr _, c1, sent1) \<Rightarrow> requestAuth E now c1 sent1)
     else requestAuth E now c sent)"

text \<open>
  \<^verbatim>\<open>init\<close> (lines 174-198). After a successful \<^verbatim>\<open>refreshAuth\<close> it starts the goroutine
  of lines 183-195, whose steps are \<open>renewal_start\<close>, once, and \<open>renewal_tick\<close> at every
  tick \<open>t\<close> of the timer; the error of \<^verbatim>\<open>refreshAuth\<close> is dropped there (line 191).
\<close>

definition init :: "env \<Rightarrow> int \<Rightarrow> client \<Rightarrow> request list \<Rightarrow> error option \<times> client \<times> request list" where
  "init E now c sent = refreshAuth E now c sent"

definition renewal_start :: "client \<Rightarrow> client" where
  "renewal_start c = (if AuthHeartbeat c = 0 then c\<lparr>AuthHeartbeat := 20\<rparr> else c)"

definition renewal_tick :: "env \<Rightarrow> int \<Rightarrow> Time \<Rightarrow> client \<Rightarrow> request list \<Rightarrow> client \<times> request list" where
  "renewal_tick E now t c sent = snd (refreshAuth E now (c\<lparr>lastUpdateTokenTime := t\<rparr>) sent)"

text \<open>
  The package-level state: the variable \<^verbatim>\<open>single\<close> (\<open>None\<close> is \<^verbatim>\<open>nil\<close>, \<open>Some c\<close> the
  struct it points to) and the requests sent so far.
\<close>

record global =
  single :: "client option"
  wire :: "request list"

text \<open>\<^verbatim>\<open>new(client)\<close> with the five fields of lines 154-158 assigned.\<close>

definition new_client :: "InitParams \<Rightarrow> client" where
  "new_client parms =
     \<lparr>AppID = AppID parms, AppSecret = AppSecret parms, AppKey = AppKey parms,
      MasterSecret = MasterSecret parms, AuthHeartbeat = AuthHeartbeat parms,
      lastUpdateTokenTime = ZeroTime, authToken = []\<rparr>"

text \<open>
  \<^verbatim>\<open>Init\<close> (lines 151-167). \<open>Inr c\<close> is the result \<^verbatim>\<open>(single, nil)\<close>, with \<open>c\<close> the struct
  \<^verbatim>\<open>single\<close> points to at the return.
\<close>

definition Init :: "env \<Rightarrow> int \<Rightarrow> InitParams \<Rightarrow> global \<Rightarrow> (error + client) \<times> global" where
  "Init E now parms g =
    (case single g of
       None \<Rightarrow>
        (case init E now (new_client parms) (wire g) of
           (Some err, c, sent) \<Rightarrow> (Inl (ErrWrap ''[GetClient]'' err), \<lparr>single = Some c, wire = sent\<rparr>)
         | (None, c, sent) \<Rightarrow> (Inr c, \<lparr>single = Some c, wire = sent\<rparr>))
     | Some c \<Rightarrow> (Inr c, g))"

definition AuthToken :: "client \<Rightarrow> string" where
  "AuthToken c = authToken c"

subsection \<open>The operations\<close>

text \<open>
  Lines 314-340, and the same lines of the other operations: send the request, read and
  decode the body into \<open>ret0\<close>, check the result. (\<^verbatim>\<open>CloseAuth\<close> above has its own
  text for the last error, and \<^verbatim>\<open>UserStatus\<close> its own last steps.)
\<close>

definition exchange :: "env \<Rightarrow> string \<Rightarrow> request \<Rightarrow> RspBody \<Rightarrow> request list \<Rightarrow> (error + RspBody) \<times> request list" where
  "exchange E tag req ret0 sent =
    (case http_Do E sent req of
       Failed e \<Rightarrow> (Inl (ErrSend tag e), sent @ [req])
     | Unread st e \<Rightarrow> (Inl (ErrRead tag e), sent @ [req])
     | Invalid st e \<Rightarrow> (Inl (ErrJSON tag e), sent @ [req])
     | Object st f \<Rightarrow>
        (let ret = unmarshal_RspBody f ret0 in
         if Result ret \<noteq> ''ok'' then (Inl (ErrRet tag ret), sent @ [req])
         else (Inr ret, sent @ [req])))"

text \<open>\<^verbatim>\<open>PushToSingle\<close> (lines 293-341); \<open>now\<close> is \<^verbatim>\<open>time.Now().UnixNano()\<close>.\<close>

definition PushToSingle_body :: "int \<Rightarrow> client \<Rightarrow> SingleReqBody \<Rightarrow> SingleReqBody" where
  "PushToSingle_body now c body =
    (let body1 = body\<lparr>single_Message := (single_Message body)\<lparr>msg_AppKey := AppKey c\<rparr>\<rparr>
     in if length (single_RequestID body1) = 0
        then body1\<lparr>single_RequestID := FormatInt now 12\<rparr> else body1)"

definition PushToSingle_request :: "int \<Rightarrow> client \<Rightarrow> SingleReqBody \<Rightarrow> request" where
  "PushToSingle_request now c body =
     \<lparr>req_method = ''POST'', req_url = endpoint c ''/push_single'',
      req_header = json_header c, req_body = SingleBody (PushToSingle_body now c body)\<rparr>"

definition PushToSingle :: "env \<Rightarrow> int \<Rightarrow> client \<Rightarrow> SingleReqBody \<Rightarrow> request list \<Rightarrow> (error + RspBody) \<times> request list" where
  "PushToSingle E now c body sent =
    (if length (single_CID body) = 0 \<and> length (single_Alias body) = 0
     then (Inl (ErrTarget ''[PushToSingle]''), sent)
     else
      (case http_NewRequest E ''POST'' (endpoint c ''/push_single'') of
         Some e \<Rightarrow> (Inl (ErrCreate ''[PushToSingle]'' e), sent)
       | None \<Rightarrow>
          exchange E ''[PushToSingle]'' (PushToSingle_request now c body)
            (zero_RspBody\<lparr>RequestID := single_RequestID (PushToSingle_body now c body)\<rparr>) sent))"

text \<open>\<^verbatim>\<open>PushToApp\<close> (lines 345-389); its errors carry the tag of \<^verbatim>\<open>PushToSingle\<close>.\<close>

definition PushToApp_body :: "int \<Rightarrow> client \<Rightarrow> AppReqBody \<Rightarrow> AppReqBody" where
  "PushToApp_body now c body =
    (let body1 = body\<lparr>app_Message := (app_Message body)\<lparr>msg_AppKey := AppKey c\<rparr>\<rparr>
     in if length (app_RequestID body1) = 0
        then body1\<lparr>app_RequestID := FormatInt now 12\<rparr> else body1)"

definition PushToApp_request :: "int \<Rightarrow> client \<Rightarrow> AppReqBody \<Rightarrow> request" where
  "PushToApp_request now c body =
     \<lparr>req_method = ''POST'', req_url = endpoint c ''/push_app'',
      req_header = json_header c, req_body = AppBody (PushToApp_body now c body)\<rparr>"

definition PushToApp :: "env \<Rightarrow> int \<Rightarrow> client \<Rightarrow> AppReqBody \<Rightarrow> request list \<Rightarrow> (error + RspBody) \<times> request list" where
  "PushToApp E now c body sent =
    (case http_NewRequest E ''POST'' (endpoint c ''/push_app'') of
       Some e \<Rightarrow> (Inl (ErrCreate ''[PushToSingle]'' e), sent)
     | None \<Rightarrow>
        exchange E ''[PushToSingle]'' (PushToApp_request now c body)
          (zero_RspBody\<lparr>RequestID := app_RequestID (PushToApp_body now c body)\<rparr>) sent)"

text \<open>\<^verbatim>\<open>StopTask\<close> (lines 393-428).\<close>

definition StopTask_request :: "client \<Rightarrow> string \<Rightarrow> request" where
  "StopTask_request c taskID =
     \<lparr>req_method = ''DELETE'', req_url = endpoint c ''/stop_task/'' @ taskID,
      req_header = json_header c, req_body = NoBody\<rparr>"

definition StopTask :: "env \<Rightarrow> client \<Rightarrow> string \<Rightarrow> request list \<Rightarrow> (error + RspBody) \<times> request list" where
  "StopTask E c taskID sent =
    (case http_NewRequest E ''DELETE'' (endpoint c ''/stop_task/'' @ taskID) of
       Some e \<Rightarrow> (Inl (ErrCreate ''[StopTask]'' e), sent)
     | None \<Rightarrow> exchange E ''[StopTask]'' (StopTask_request c taskID) zero_RspBody sent)"

text \<open>
  \<^verbatim>\<open>UserStatus\<close> (lines 432-476). \<open>Inr ret\<close> is the result \<^verbatim>\<open>(ret, nil)\<close>;
  \<open>Inl (r, err)\<close> is an error, with \<open>r = Some ret\<close> where \<^verbatim>\<open>ret\<close> comes back with it
  (lines 466 and 472) and \<open>r = None\<close> where \<^verbatim>\<open>nil\<close> does.
\<close>

definition UserStatus_request :: "client \<Rightarrow> string \<Rightarrow> request" where
  "UserStatus_request c cid =
     \<lparr>req_method = ''GET'', req_url = endpoint c ''/user_status/'' @ cid,
      req_header = json_header c, req_body = NoBody\<rparr>"

definition UserStatus :: "env \<Rightarrow> client \<Rightarrow> string \<Rightarrow> request list \<Rightarrow> ((UserStatusBody option \<times> error) + UserStatusBody) \<times> request list" where
  "UserStatus E c cid sent =
    (case http_NewRequest E ''GET'' (endpoint c ''/user_status/'' @ cid) of
       Some e \<Rightarrow> (Inl (None, ErrCreate ''[UserStatus]'' e), sent)
     | None \<Rightarrow>
        (let req = UserStatus_request c cid in
         case http_Do E sent req of
           Failed e \<Rightarrow> (Inl (None, ErrSend ''[UserStatus]'' e), sent @ [req])
         | Unread st e \<Rightarrow> (Inl (None, ErrRead ''[UserStatus]'' e), sent @ [req])
         | Invalid st e \<Rightarrow> (Inl (None, ErrJSON ''[UserStatus]'' e), sent @ [req])
         | Object st f \<Rightarrow>
            (let ret = unmarshal_UserStatus f zero_UserStatus in
             case (if 0 < length (LastLoginUnix ret)
                   then (case Atoi (LastLoginUnix ret) of
                           Inl why \<Rightarrow> Inl (ErrNum (LastLoginUnix ret) why)
                         | Inr lastLoginUnix \<Rightarrow> Inr (ret\<lparr>LastLogin := Unix (lastLoginUnix sdiv 1000) 0\<rparr>))
                   else Inr ret) of
               Inl err \<Rightarrow> (Inl (Some ret, err), sent @ [req])
             | Inr ret1 \<Rightarrow>
                if us_Result ret1 \<noteq> ''ok''
                then (Inl (Some ret1, ErrRetStatus ''[UserStatus]'' ret1), sent @ [req])
                else (Inr ret1, sent @ [req]))))"

text \<open>
  \<^verbatim>\<open>UserExisted\<close> (lines 479-491): the pair \<^verbatim>\<open>(existed, err)\<close>, \<open>None\<close> for a
  \<^verbatim>\<open>nil\<close> error.
\<close>

definition UserExisted :: "env \<Rightarrow> client \<Rightarrow> string \<Rightarrow> request list \<Rightarrow> (bool \<times> error option) \<times> request list" where
  "UserExisted E c cid sent =
    (case UserStatus E c cid sent of
       (Inl (ret, err), sent1) \<Rightarrow> ((False, Some (ErrWrap ''[UserExisted]'' err)), sent1)
     | (Inr ret, sent1) \<Rightarrow>
        if us_Result ret = ''no_user'' then ((False, None), sent1) else ((True, None), sent1))"

text \<open>\<^verbatim>\<open>saveListBody\<close> (lines 552-596).\<close>

definition saveListBody_body :: "client \<Rightarrow> ListReqBody \<Rightarrow> SaveListBody" where
  "saveListBody_body c listBody =
     \<lparr>save_Message =
        \<lparr>save_AppKey = AppKey c, save_IsOffLine = msg_IsOffline (list_Message listBody),
         save_OfflineExpireTime = list_OfflineExpireTime listBody,
         save_MsgType = msg_MsgType (list_Message listBody)\<rparr>,
      save_Notification = list_Notification listBody\<rparr>"

definition saveListBody_request :: "client \<Rightarrow> ListReqBody \<Rightarrow> request" where
  "saveListBody_request c listBody =
     \<lparr>req_method = ''POST'', req_url = endpoint c ''/save_list_body'',
      req_header = json_header c, req_body = SaveBody (saveListBody_body c listBody)\<rparr>"

definition saveListBody :: "env \<Rightarrow> client \<Rightarrow> ListReqBody \<Rightarrow> request list \<Rightarrow> (error + RspBody) \<times> request list" where
  "saveListBody E c listBody sent =
    (case http_NewRequest E ''POST'' (endpoint c ''/save_list_body'') of
       Some e \<Rightarrow> (Inl (ErrCreate ''[saveListBody]'' e), sent)
     | None \<Rightarrow> exchange E ''[saveListBody]'' (saveListBody_request c listBody) zero_RspBody sent)"

text \<open>\<^verbatim>\<open>PushToList\<close> (lines 495-548).\<close>

definition PushToList_body :: "client \<Rightarrow> ListReqBody \<Rightarrow> RspBody \<Rightarrow> ListReqBody" where
  "PushToList_body c body ret =
     body\<lparr>list_Message := (list_Message body)\<lparr>msg_AppKey := AppKey c\<rparr>,
          list_TaskID := TaskID ret, list_NeedDetail := True\<rparr>"

definition PushToList_request :: "client \<Rightarrow> ListReqBody \<Rightarrow> RspBody \<Rightarrow> request" where
  "PushToList_request c body ret =
     \<lparr>req_method = ''POST'', req_url = endpoint c ''/push_list'',
      req_header = json_header c, req_body = ListBody (PushToList_body c body ret)\<rparr>"

definition PushToList :: "env \<Rightarrow> client \<Rightarrow> ListReqBody \<Rightarrow> request list \<Rightarrow> (error + RspBody) \<times> request list" where
  "PushToList E c body sent =
    (if length (list_CID body) = 0 \<and> length (list_Alias body) = 0
     then (Inl (ErrTarget ''[PushToList]''), sent)
     else
      (case saveListBody E c body sent of
         (Inl err, sent1) \<Rightarrow> (Inl (ErrWrap ''[PushToList]'' err), sent1)
       | (Inr ret, sent1) \<Rightarrow>
          (case http_NewRequest E ''POST'' (endpoint c ''/push_list'') of
             Some e \<Rightarrow> (Inl (ErrCreate ''[PushToList]'' e), sent1)
           | None \<Rightarrow>
              exchange E ''[PushToList]'' (PushToList_request c body ret)
                (zero_RspBody\<lparr>TaskID := list_TaskID (PushToList_body c body ret)\<rparr>) sent1)))"

subsection \<open>Example scenarios\<close>

text \<open>
  Concrete environments and inputs on which the theorems below are instantiated. In
  \<open>replying srv\<close> every request can be built and the remote service answers a request by
  \<open>srv\<close>, whatever was sent before.
\<close>

definition replying :: "(request \<Rightarrow> response) \<Rightarrow> env" where
  "replying srv = \<lparr>sha256_Sum256 = (\<lambda>_. 0), http_NewRequest = (\<lambda>_ _. None), http_Do = (\<lambda>_. srv)\<rparr>"

definition demo_params :: InitParams where
  "demo_params =
     \<lparr>AppID = ''app'', AppSecret = ''secret'', AppKey = ''K'', MasterSecret = ''S'', AuthHeartbeat = 0\<rparr>"

definition demo_client :: "string \<Rightarrow> client" where
  "demo_client tok = (new_client demo_params)\<lparr>authToken := tok\<rparr>"

text \<open>The service rejects the signature: an envelope with an error code and no token.\<close>

definition sign_rejected :: "request \<Rightarrow> response" where
  "sign_rejected req = Object 200 [''result'' \<mapsto> ''sign_error'', ''desc'' \<mapsto> ''sign error'']"

text \<open>The service refuses to revoke a token and would issue a new one.\<close>

definition close_fails :: "request \<Rightarrow> response" where
  "close_fails req =
    (if req_url req = ''https://restapi.getui.com/v1/app/auth_close''
     then Object 200 [''result'' \<mapsto> ''error'', ''desc'' \<mapsto> ''token expired'']
     else Object 200 [''result'' \<mapsto> ''ok'', ''auth_token'' \<mapsto> ''T2''])"

definition all_ok :: "request \<Rightarrow> response" where
  "all_ok req = Object 200 [''result'' \<mapsto> ''ok'', ''auth_token'' \<mapsto> ''T2'', ''taskid'' \<mapsto> ''task1'']"

definition no_user :: "request \<Rightarrow> response" where
  "no_user req = Object 200 [''result'' \<mapsto> ''no_user'']"

definition quota_exceeded :: "request \<Rightarrow> response" where
  "quota_exceeded req = Object 200 [''result'' \<mapsto> ''error'', ''desc'' \<mapsto> ''quota exceeded'']"


text \<open>Zero values of the request structs, and a list push to one device.\<close>

definition zero_Message :: Message where
  "zero_Message = \<lparr>msg_AppKey = [], msg_IsOffline = False, msg_MsgType = []\<rparr>"

definition zero_Notification :: Notification where
  "zero_Notification =
     \<lparr>Style = \<lparr>style_Type = 0, style_Text = [], style_Title = []\<rparr>,
      TransmissionType = False, TransmissionContent = []\<rparr>"

definition zero_PushInfo :: PushInfo where
  "zero_PushInfo =
     \<lparr>Aps = \<lparr>Alert = \<lparr>alert_Title = [], alert_Body = []\<rparr>, AutoBadge = [], ContentAvailable = 0\<rparr>,
      Multimedia = []\<rparr>"

definition zero_SingleReqBody :: SingleReqBody where
  "zero_SingleReqBody =
     \<lparr>single_Message = zero_Message, single_Notification = zero_Notification, single_CID = [],
      single_Alias = [], single_RequestID = [], single_PushInfo = zero_PushInfo\<rparr>"

definition zero_ListReqBody :: ListReqBody where
  "zero_ListReqBody =
     \<lparr>list_Message = zero_Message, list_Notification = zero_Notification, list_CID = [],
      list_Alias = [], list_PushInfo = zero_PushInfo, list_TaskID = [], list_NeedDetail = False,
      list_OfflineExpireTime = 0\<rparr>"

definition zero_AppReqBody :: AppReqBody where
  "zero_AppReqBody =
     \<lparr>app_Message = zero_Message, app_Notification = zero_Notification, app_Condition = [],
      app_RequestID = []\<rparr>"

definition demo_single :: SingleReqBody where
  "demo_single = zero_SingleReqBody\<lparr>single_CID := ''cid1'', single_RequestID := ''r1''\<rparr>"

definition demo_list :: ListReqBody where
  "demo_list = zero_ListReqBody\<lparr>list_CID := [''cid1'']\<rparr>"

definition demo_app :: AppReqBody where
  "demo_app = zero_AppReqBody\<lparr>app_RequestID := ''r2''\<rparr>"

section \<open>Properties\<close>

lemmas session_defs =
  Init_def init_def refreshAuth_def requestAuth_def CloseAuth_def new_client_def field_def
  unmarshal_RspBody_def zero_RspBody_def AuthToken_def

lemmas demo_defs = replying_def demo_client_def demo_params_def endpoint_def

subsection \<open>What a call sends, and what it leaves of the client\<close>

lemma CloseAuth_client: "fst (snd (CloseAuth E c sent)) = c"
  by (simp add: CloseAuth_def Let_def split: option.split response.split)

lemma CloseAuth_sent:
  "snd (snd (CloseAuth E c sent)) = sent \<or> snd (snd (CloseAuth E c sent)) = sent @ [CloseAuth_request c]"
  by (simp add: CloseAuth_def Let_def split: option.split response.split)

lemma CloseAuth_Inr_sent:
  "fst (CloseAuth E c sent) = Inr ret \<Longrightarrow> snd (snd (CloseAuth E c sent)) = sent @ [CloseAuth_request c]"
  by (auto simp: CloseAuth_def Let_def split: option.splits response.splits if_splits)


lemma requestAuth_sent:
  "snd (snd (requestAuth E now c sent)) = sent \<or>
   snd (snd (requestAuth E now c sent)) = sent @ [auth_request E now c]"
  by (simp add: requestAuth_def Let_def split: option.split response.split)


lemma auth_urls_differ: "req_url (CloseAuth_request c) \<noteq> req_url (auth_request E now c)"
  by (simp add: CloseAuth_request_def auth_request_def endpoint_def)

lemma exchange_sent: "snd (exchange E tag req ret0 sent) = sent @ [req]"
  by (simp add: exchange_def Let_def split: response.split)

lemma exchange_not_ok:
  assumes "http_Do E sent req = Object st f" "f ''result'' \<noteq> Some ''ok''" "Result ret0 = []"
  shows "exchange E tag req ret0 sent = (Inl (ErrRet tag (unmarshal_RspBody f ret0)), sent @ [req])"
    and "Result (unmarshal_RspBody f ret0) = field f ''result'' []"
    and "Desc (unmarshal_RspBody f ret0) = field f ''desc'' (Desc ret0)"
  using assms by (auto simp: exchange_def Let_def unmarshal_RspBody_def field_def split: option.splits)

lemma saveListBody_sent:
  "snd (saveListBody E c body sent) = sent \<or>
   snd (saveListBody E c body sent) = sent @ [saveListBody_request c body]"
  by (simp add: saveListBody_def exchange_sent split: option.split)

lemma push_list_url_differs: "req_url (saveListBody_request c body) \<noteq> endpoint c ''/push_list''"
  by (simp add: saveListBody_request_def endpoint_def)

lemma UserStatus_Inr_ok: "UserStatus E c cid sent = (Inr ret, sent1) \<Longrightarrow> us_Result ret = ''ok''"
  by (auto simp: UserStatus_def Let_def split: option.splits response.splits if_splits sum.splits)

text \<open>
  The test of line 486 is never true where it stands: \<^verbatim>\<open>UserStatus\<close> returns a
  \<^verbatim>\<open>nil\<close> error only with the result "ok".
\<close>

lemma UserExisted_never_false_without_error: "fst (UserExisted E c cid sent) \<noteq> (False, None)"
proof (cases "UserStatus E c cid sent")
  case (Pair r sent1)
  show ?thesis
  proof (cases r)
    case (Inl a)
    with Pair show ?thesis by (cases a) (simp add: UserExisted_def)
  next
    case (Inr ret)
    with Pair have "us_Result ret = ''ok''" by (auto dest: UserStatus_Inr_ok)
    with Pair Inr show ?thesis by (simp add: UserExisted_def)
  qed
qed

subsection \<open>Formatting is injective\<close>

















subsection \<open>Acquiring the token\<close>

text \<open>
  Whatever the result of the envelope is, \<^verbatim>\<open>refreshAuth\<close> stores the token of the decoded
  body (the empty string when there is none) and returns no error.
\<close>

lemma requestAuth_stores_any_result:
  assumes "http_NewRequest E ''POST'' (endpoint c ''/auth_sign'') = None"
    and "http_Do E sent (auth_request E now c) = Object st f"
  shows "requestAuth E now c sent =
    (None, c\<lparr>authToken := field f ''auth_token'' []\<rparr>, sent @ [auth_request E now c])"
  using assms by (simp add: requestAuth_def)

text \<open>
  Claim C1: credential acquisition stores the returned token only when the envelope's
  result is "ok" and fails otherwise, so that \<^verbatim>\<open>Init\<close> never succeeds with an empty token.
  The code does not do this: \<^verbatim>\<open>refreshAuth\<close> decodes the result (line 245) and never
  reads it. When the service answers the issuance request with an error envelope that has
  no token, \<^verbatim>\<open>refreshAuth\<close> returns a \<^verbatim>\<open>nil\<close> error, \<^verbatim>\<open>Init\<close> returns the client with
  a \<^verbatim>\<open>nil\<close> error, and \<^verbatim>\<open>AuthToken\<close> of that client is empty.
\<close>

theorem Init_succeeds_with_empty_token:
  "refreshAuth (replying sign_rejected) 0 (new_client demo_params) [] =
     (None, new_client demo_params, [auth_request (replying sign_rejected) 0 (new_client demo_params)])
   \<and> Init (replying sign_rejected) 0 demo_params \<lparr>single = None, wire = []\<rparr> =
     (Inr (new_client demo_params),
      \<lparr>single = Some (new_client demo_params),
       wire = [auth_request (replying sign_rejected) 0 (new_client demo_params)]\<rparr>)
   \<and> AuthToken (new_client demo_params) = []"
  by (simp add: session_defs replying_def sign_rejected_def demo_params_def)

subsection \<open>Does the user exist\<close>

text \<open>
  Claim C2: \<^verbatim>\<open>UserExisted\<close> returns false with a \<^verbatim>\<open>nil\<close> error when the status lookup
  comes back with the result "no_user". The code does not do this: \<^verbatim>\<open>UserStatus\<close> returns
  an error for every result other than "ok" (line 471), "no_user" included, and
  \<^verbatim>\<open>UserExisted\<close> returns at line 483 before it reaches the test for "no_user" of line 486.
  On the answer "no_user" the result is false together with an error.
\<close>

theorem UserExisted_no_user_is_error:
  "fst (UserExisted (replying no_user) (demo_client ''T1'') ''cid1'' []) =
     (False, Some (ErrWrap ''[UserExisted]''
        (ErrRetStatus ''[UserStatus]'' (zero_UserStatus\<lparr>us_Result := ''no_user''\<rparr>))))"
  by (simp add: UserExisted_def UserStatus_def unmarshal_UserStatus_def zero_UserStatus_def
      field_def demo_defs no_user_def Let_def)

subsection \<open>Renewal\<close>

text \<open>
  Against claim C3 as it is written: a token is held, the service refuses to revoke it and
  would issue a new one. The tick sends the revocation request and nothing else; the token
  stays.
\<close>

theorem renewal_aborted_when_close_fails:
  "renewal_tick (replying close_fails) 0 (Unix 72000 0) (demo_client ''T1'') [] =
     ((demo_client ''T1'')\<lparr>lastUpdateTokenTime := Unix 72000 0\<rparr>,
      [CloseAuth_request ((demo_client ''T1'')\<lparr>lastUpdateTokenTime := Unix 72000 0\<rparr>)])
   \<and> req_url (CloseAuth_request ((demo_client ''T1'')\<lparr>lastUpdateTokenTime := Unix 72000 0\<rparr>))
       = ''https://restapi.getui.com/v1/app/auth_close''"
  by (simp add: renewal_tick_def session_defs demo_defs close_fails_def CloseAuth_request_def)

text \<open>
  Claim C3, amended: when a token is held, \<^verbatim>\<open>refreshAuth\<close> (which a renewal tick runs)
  calls \<^verbatim>\<open>CloseAuth\<close> first: what it sends is nothing, the revocation request, or the
  revocation request followed by the issuance request, and the two requests differ. When
  \<^verbatim>\<open>CloseAuth\<close> fails, the renewal stops there (line 207): \<^verbatim>\<open>refreshAuth\<close> returns the
  wrapped error, the client is as it was and no issuance request is sent. When
  \<^verbatim>\<open>CloseAuth\<close> succeeds, \<^verbatim>\<open>refreshAuth\<close> goes on to ask for a token after the revocation
  request. A tick is \<^verbatim>\<open>refreshAuth\<close> on the client with the time of the tick stored, which
  holds the same token.
\<close>

theorem refreshAuth_invalidates_first:
  assumes "authToken c \<noteq> []"
  shows "(snd (snd (refreshAuth E now c sent)) = sent
          \<or> snd (snd (refreshAuth E now c sent)) = sent @ [CloseAuth_request c]
          \<or> snd (snd (refreshAuth E now c sent)) = sent @ [CloseAuth_request c, auth_request E now c])
       \<and> req_url (CloseAuth_request c) \<noteq> req_url (auth_request E now c)
       \<and> (\<forall>err. fst (CloseAuth E c sent) = Inl err \<longrightarrow>
            fst (refreshAuth E now c sent) = Some (ErrWrap ''[refreshAuth]'' err)
            \<and> fst (snd (refreshAuth E now c sent)) = c
            \<and> (snd (snd (refreshAuth E now c sent)) = sent
                \<or> snd (snd (refreshAuth E now c sent)) = sent @ [CloseAuth_request c]))
       \<and> (\<forall>ret. fst (CloseAuth E c sent) = Inr ret \<longrightarrow>
            refreshAuth E now c sent = requestAuth E now c (sent @ [CloseAuth_request c]))
       \<and> renewal_tick E now t c sent = snd (refreshAuth E now (c\<lparr>lastUpdateTokenTime := t\<rparr>) sent)
       \<and> authToken (c\<lparr>lastUpdateTokenTime := t\<rparr>) = authToken c"
proof -
  obtain r c1 s1 where ca: "CloseAuth E c sent = (r, c1, s1)"
    by (metis prod_cases3)
  have c1: "c1 = c"
    using CloseAuth_client [of E c sent] ca by simp
  have s1: "s1 = sent \<or> s1 = sent @ [CloseAuth_request c]"
    using CloseAuth_sent [of E c sent] ca by simp
  show ?thesis
  proof (cases r)
    case (Inl err)
    with ca c1 assms have "refreshAuth E now c sent = (Some (ErrWrap ''[refreshAuth]'' err), c, s1)"
      by (simp add: refreshAuth_def)
    with s1 ca Inl show ?thesis
      by (auto simp: auth_urls_differ renewal_tick_def)
  next
    case (Inr ret)
    with ca have s1': "s1 = sent @ [CloseAuth_request c]"
      using CloseAuth_Inr_sent [of E c sent ret] by simp
    from ca c1 Inr assms have eq: "refreshAuth E now c sent = requestAuth E now c s1"
      by (simp add: refreshAuth_def)
    with s1' requestAuth_sent [of E now c s1] ca Inr show ?thesis
      by (auto simp: auth_urls_differ renewal_tick_def)
  qed
qed

theorem refreshAuth_invalidates_first_witness:
  "authToken (demo_client ''T1'') \<noteq> []
   \<and> fst (CloseAuth (replying close_fails) (demo_client ''T1'') []) =
       Inl (ErrDesc ''[CloseAuth]'' ''token expired'')
   \<and> refreshAuth (replying close_fails) 0 (demo_client ''T1'') [] =
       (Some (ErrWrap ''[refreshAuth]'' (ErrDesc ''[CloseAuth]'' ''token expired'')),
        demo_client ''T1'', [CloseAuth_request (demo_client ''T1'')])
   \<and> fst (CloseAuth (replying all_ok) (demo_client ''T1'') []) =
       Inr (zero_RspBody\<lparr>Result := ''ok'', TaskID := ''task1''\<rparr>)
   \<and> refreshAuth (replying all_ok) 0 (demo_client ''T1'') [] =
       (None, demo_client ''T2'',
        [CloseAuth_request (demo_client ''T1''), auth_request (replying all_ok) 0 (demo_client ''T1'')])"
proof -
  have h: "authToken (demo_client ''T1'') \<noteq> []"
    by (simp add: demo_client_def)
  show ?thesis
    using h
      refreshAuth_invalidates_first [OF h, where E = "replying close_fails" and now = 0 and sent = "[]"]
      refreshAuth_invalidates_first [OF h, where E = "replying all_ok" and now = 0 and sent = "[]"]
    by (simp add: session_defs demo_defs close_fails_def all_ok_def CloseAuth_request_def)
qed

subsection \<open>Invalidation\<close>

text \<open>
  Against claim C4 as it is written: the service answers the revocation with "ok";
  \<^verbatim>\<open>CloseAuth\<close> succeeds and the stored token is the one it was, not empty.
\<close>

theorem CloseAuth_ok_keeps_token:
  "CloseAuth (replying all_ok) (demo_client ''T1'') [] =
     (Inr (zero_RspBody\<lparr>Result := ''ok'', TaskID := ''task1''\<rparr>), demo_client ''T1'',
      [CloseAuth_request (demo_client ''T1'')])
   \<and> authToken (demo_client ''T1'') = ''T1''
   \<and> authToken (demo_client ''T1'') \<noteq> []"
  by (simp add: session_defs demo_defs all_ok_def CloseAuth_request_def)

text \<open>
  Claim C4, amended: \<^verbatim>\<open>CloseAuth\<close> leaves the client as it was, stored token included,
  whether it succeeds or fails; when it succeeds, the envelope's result is "ok" and the
  request it sent to the revocation endpoint carried the stored token.
\<close>

theorem CloseAuth_leaves_client:
  "fst (snd (CloseAuth E c sent)) = c \<and>
   (\<forall>ret. fst (CloseAuth E c sent) = Inr ret \<longrightarrow>
      Result ret = ''ok'' \<and> snd (snd (CloseAuth E c sent)) = sent @ [CloseAuth_request c] \<and>
      req_url (CloseAuth_request c) = endpoint c ''/auth_close'' \<and>
      req_header (CloseAuth_request c) = [(''authtoken'', authToken c)])"
  by (auto simp: CloseAuth_def Let_def CloseAuth_request_def split: option.splits response.splits if_splits)

theorem CloseAuth_leaves_client_witness:
  "fst (snd (CloseAuth (replying all_ok) (demo_client ''T1'') [])) = demo_client ''T1'' \<and>
   fst (CloseAuth (replying all_ok) (demo_client ''T1'') []) =
     Inr (zero_RspBody\<lparr>Result := ''ok'', TaskID := ''task1''\<rparr>) \<and>
   Result (zero_RspBody\<lparr>Result := ''ok'', TaskID := ''task1''\<rparr>) = ''ok'' \<and>
   snd (snd (CloseAuth (replying all_ok) (demo_client ''T1'') [])) = [CloseAuth_request (demo_client ''T1'')] \<and>
   req_header (CloseAuth_request (demo_client ''T1'')) = [(''authtoken'', ''T1'')]"
  using CloseAuth_leaves_client [of "replying all_ok" "demo_client ''T1''" "[]"]
  by (simp add: session_defs demo_defs all_ok_def CloseAuth_request_def)

subsection \<open>The list push\<close>

text \<open>
  Claim C5: for every \<^verbatim>\<open>ListReqBody\<close>, if the call of \<^verbatim>\<open>saveListBody\<close> fails,
  \<^verbatim>\<open>PushToList\<close> returns an error and sends no request to the \<^verbatim>\<open>push_list\<close> endpoint; when
  it succeeds, every request \<^verbatim>\<open>PushToList\<close> sends to that endpoint is the one whose body
  has the task identifier \<^verbatim>\<open>saveListBody\<close> returned, and that request is sent once the
  target is given and the request can be built.
\<close>

theorem PushToList_two_phase:
  "(\<forall>err sent1. saveListBody E c body sent = (Inl err, sent1) \<longrightarrow>
      (\<exists>e. fst (PushToList E c body sent) = Inl e) \<and>
      (\<forall>r \<in> set (drop (length sent) (snd (PushToList E c body sent))).
          req_url r \<noteq> endpoint c ''/push_list'')) \<and>
   (\<forall>ret sent1. saveListBody E c body sent = (Inr ret, sent1) \<longrightarrow>
      (\<forall>r \<in> set (drop (length sent) (snd (PushToList E c body sent))).
          req_url r = endpoint c ''/push_list'' \<longrightarrow> r = PushToList_request c body ret) \<and>
      req_body (PushToList_request c body ret) = ListBody (PushToList_body c body ret) \<and>
      list_TaskID (PushToList_body c body ret) = TaskID ret \<and>
      (\<not> (list_CID body = [] \<and> list_Alias body = []) \<and>
       http_NewRequest E ''POST'' (endpoint c ''/push_list'') = None \<longrightarrow>
         snd (PushToList E c body sent) = sent1 @ [PushToList_request c body ret]))"
proof (intro conjI allI impI)
  fix err sent1
  assume a: "saveListBody E c body sent = (Inl err, sent1)"
  then have s1: "sent1 = sent \<or> sent1 = sent @ [saveListBody_request c body]"
    using saveListBody_sent [of E c body sent] by simp
  from a show "\<exists>e. fst (PushToList E c body sent) = Inl e"
    by (simp add: PushToList_def)
  from a have "snd (PushToList E c body sent) = sent \<or> snd (PushToList E c body sent) = sent1"
    by (simp add: PushToList_def)
  with s1 show "\<forall>r \<in> set (drop (length sent) (snd (PushToList E c body sent))).
      req_url r \<noteq> endpoint c ''/push_list''"
    by (auto simp: push_list_url_differs)
next
  fix ret sent1
  assume a: "saveListBody E c body sent = (Inr ret, sent1)"
  then have s1: "sent1 = sent \<or> sent1 = sent @ [saveListBody_request c body]"
    using saveListBody_sent [of E c body sent] by simp
  from a have "snd (PushToList E c body sent) = sent \<or> snd (PushToList E c body sent) = sent1
      \<or> snd (PushToList E c body sent) = sent1 @ [PushToList_request c body ret]"
    by (simp add: PushToList_def exchange_sent split: option.split)
  with s1 show "\<forall>r \<in> set (drop (length sent) (snd (PushToList E c body sent))).
      req_url r = endpoint c ''/push_list'' \<longrightarrow> r = PushToList_request c body ret"
    by (auto simp: push_list_url_differs)
  show "req_body (PushToList_request c body ret) = ListBody (PushToList_body c body ret)"
    by (simp add: PushToList_request_def)
  show "list_TaskID (PushToList_body c body ret) = TaskID ret"
    by (simp add: PushToList_body_def)
  assume "\<not> (list_CID body = [] \<and> list_Alias body = []) \<and>
    http_NewRequest E ''POST'' (endpoint c ''/push_list'') = None"
  with a show "snd (PushToList E c body sent) = sent1 @ [PushToList_request c body ret]"
    by (auto simp: PushToList_def exchange_sent)
qed

theorem PushToList_two_phase_witness:
  "saveListBody (replying quota_exceeded) (demo_client ''T1'') demo_list [] =
     (Inl (ErrRet ''[saveListBody]'' (zero_RspBody\<lparr>Result := ''error'', Desc := ''quota exceeded''\<rparr>)),
      [saveListBody_request (demo_client ''T1'') demo_list])
   \<and> PushToList (replying quota_exceeded) (demo_client ''T1'') demo_list [] =
     (Inl (ErrWrap ''[PushToList]''
        (ErrRet ''[saveListBody]'' (zero_RspBody\<lparr>Result := ''error'', Desc := ''quota exceeded''\<rparr>))),
      [saveListBody_request (demo_client ''T1'') demo_list])
   \<and> saveListBody (replying all_ok) (demo_client ''T1'') demo_list [] =
     (Inr (zero_RspBody\<lparr>Result := ''ok'', TaskID := ''task1''\<rparr>),
      [saveListBody_request (demo_client ''T1'') demo_list])
   \<and> snd (PushToList (replying all_ok) (demo_client ''T1'') demo_list []) =
     [saveListBody_request (demo_client ''T1'') demo_list,
      PushToList_request (demo_client ''T1'') demo_list (zero_RspBody\<lparr>Result := ''ok'', TaskID := ''task1''\<rparr>)]
   \<and> list_TaskID (PushToList_body (demo_client ''T1'') demo_list
        (zero_RspBody\<lparr>Result := ''ok'', TaskID := ''task1''\<rparr>)) = ''task1''"
  using
    PushToList_two_phase [where E = "replying quota_exceeded" and c = "demo_client ''T1''"
      and body = demo_list and sent = "[]"]
    PushToList_two_phase [where E = "replying all_ok" and c = "demo_client ''T1''"
      and body = demo_list and sent = "[]"]
  by (simp add: PushToList_def saveListBody_def exchange_def unmarshal_RspBody_def zero_RspBody_def
      field_def Let_def replying_def quota_exceeded_def all_ok_def demo_list_def zero_ListReqBody_def
      PushToList_body_def)

subsection \<open>Validation of the target\<close>

text \<open>
  Claim C6: for every push request body whose device identifier and alias are both empty,
  \<^verbatim>\<open>PushToSingle\<close> and \<^verbatim>\<open>PushToList\<close> return the validation error and send nothing,
  whatever the environment is: no request is built or sent.
\<close>

theorem push_without_target:
  "(single_CID sb = [] \<and> single_Alias sb = [] \<longrightarrow>
      PushToSingle E now c sb sent = (Inl (ErrTarget ''[PushToSingle]''), sent)) \<and>
   (list_CID lb = [] \<and> list_Alias lb = [] \<longrightarrow>
      PushToList E c lb sent = (Inl (ErrTarget ''[PushToList]''), sent))"
  by (simp add: PushToSingle_def PushToList_def)

theorem push_without_target_witness:
  "single_CID zero_SingleReqBody = [] \<and> single_Alias zero_SingleReqBody = [] \<and>
   PushToSingle (replying all_ok) 0 (demo_client ''T1'') zero_SingleReqBody [] =
     (Inl (ErrTarget ''[PushToSingle]''), []) \<and>
   list_CID zero_ListReqBody = [] \<and> list_Alias zero_ListReqBody = [] \<and>
   PushToList (replying all_ok) (demo_client ''T1'') zero_ListReqBody [] =
     (Inl (ErrTarget ''[PushToList]''), [])"
  using push_without_target [where sb = zero_SingleReqBody and lb = zero_ListReqBody
      and E = "replying all_ok" and now = 0 and c = "demo_client ''T1''" and sent = "[]"]
  by (simp add: zero_SingleReqBody_def zero_ListReqBody_def)

subsection \<open>A result other than "ok"\<close>

text \<open>
  Claim C7: when the response to the request of \<^verbatim>\<open>PushToSingle\<close>, \<^verbatim>\<open>PushToApp\<close> or
  \<^verbatim>\<open>StopTask\<close> arrives and decodes, and its result is not "ok", the operation returns
  the error of the last check, which carries the decoded envelope with the result and the
  description the service gave; the HTTP status \<open>st\<close> plays no part.
\<close>

theorem not_ok_is_error:
  "(\<not> (single_CID sb = [] \<and> single_Alias sb = []) \<and>
    http_NewRequest E ''POST'' (endpoint c ''/push_single'') = None \<and>
    http_Do E sent (PushToSingle_request now c sb) = Object st f \<and> f ''result'' \<noteq> Some ''ok'' \<longrightarrow>
      (\<exists>ret. PushToSingle E now c sb sent =
          (Inl (ErrRet ''[PushToSingle]'' ret), sent @ [PushToSingle_request now c sb])
         \<and> Result ret = field f ''result'' [] \<and> Desc ret = field f ''desc'' [])) \<and>
   (http_NewRequest E ''POST'' (endpoint c ''/push_app'') = None \<and>
    http_Do E sent (PushToApp_request now c ab) = Object st f \<and> f ''result'' \<noteq> Some ''ok'' \<longrightarrow>
      (\<exists>ret. PushToApp E now c ab sent =
          (Inl (ErrRet ''[PushToSingle]'' ret), sent @ [PushToApp_request now c ab])
         \<and> Result ret = field f ''result'' [] \<and> Desc ret = field f ''desc'' [])) \<and>
   (http_NewRequest E ''DELETE'' (endpoint c ''/stop_task/'' @ taskID) = None \<and>
    http_Do E sent (StopTask_request c taskID) = Object st f \<and> f ''result'' \<noteq> Some ''ok'' \<longrightarrow>
      (\<exists>ret. StopTask E c taskID sent =
          (Inl (ErrRet ''[StopTask]'' ret), sent @ [StopTask_request c taskID])
         \<and> Result ret = field f ''result'' [] \<and> Desc ret = field f ''desc'' []))"
  by (auto simp: PushToSingle_def PushToApp_def StopTask_def zero_RspBody_def exchange_not_ok)

theorem not_ok_is_error_witness:
  "PushToSingle (replying quota_exceeded) 0 (demo_client ''T1'') demo_single [] =
     (Inl (ErrRet ''[PushToSingle]''
        (zero_RspBody\<lparr>Result := ''error'', Desc := ''quota exceeded'', RequestID := ''r1''\<rparr>)),
      [PushToSingle_request 0 (demo_client ''T1'') demo_single])
   \<and> PushToApp (replying quota_exceeded) 0 (demo_client ''T1'') demo_app [] =
     (Inl (ErrRet ''[PushToSingle]''
        (zero_RspBody\<lparr>Result := ''error'', Desc := ''quota exceeded'', RequestID := ''r2''\<rparr>)),
      [PushToApp_request 0 (demo_client ''T1'') demo_app])
   \<and> StopTask (replying quota_exceeded) (demo_client ''T1'') ''task1'' [] =
     (Inl (ErrRet ''[StopTask]'' (zero_RspBody\<lparr>Result := ''error'', Desc := ''quota exceeded''\<rparr>)),
      [StopTask_request (demo_client ''T1'') ''task1''])"
  using not_ok_is_error [where E = "replying quota_exceeded" and now = 0 and c = "demo_client ''T1''"
      and sb = demo_single and ab = demo_app and taskID = "''task1''" and sent = "[]" and st = 200
      and f = "[''result'' \<mapsto> ''error'', ''desc'' \<mapsto> ''quota exceeded'']"]
  by (simp add: PushToSingle_def PushToApp_def StopTask_def exchange_def unmarshal_RspBody_def
      zero_RspBody_def field_def Let_def replying_def quota_exceeded_def demo_single_def demo_app_def
      zero_SingleReqBody_def zero_AppReqBody_def PushToSingle_body_def PushToApp_body_def)

subsection \<open>The signature\<close>




subsection \<open>The singleton\<close>



end
